theory Spec2Isabelle
  imports Main
begin

section \<open>Python values used by the runner\<close>

text \<open>
  Exceptions of the Python sources, as values. \<open>Exit\<close> is \<open>typer.Exit(code)\<close>,
  \<open>TypeError\<close> is what \<open>os.path.join\<close> raises on \<open>None\<close>, \<open>AssertionError\<close>
  carries the message of a failed \<open>assert\<close>, \<open>FileNotFoundError\<close> the message of
  a missing path, \<open>HostfileNotFound\<close> the path of a missing hostfile.
\<close>

datatype error =
    Exit int
  | TypeError
  | AssertionError string
  | FileNotFoundError string
  | HostfileNotFound string

definition nl :: char where
  "nl = CHR 0x0A"


definition sq :: char where
  "sq = CHR 0x27"

text \<open>\<open>sep.join(xs)\<close>\<close>

fun str_join :: "string \<Rightarrow> string list \<Rightarrow> string" where
  "str_join sep [] = []"
| "str_join sep [x] = x"
| "str_join sep (x # y # ys) = x @ sep @ str_join sep (y # ys)"

text \<open>\<open>s.split(c)\<close> for a one-character separator.\<close>

fun split_on :: "char \<Rightarrow> string \<Rightarrow> string list" where
  "split_on c [] = [[]]"
| "split_on c (x # xs) =
     (if x = c then [] # split_on c xs
      else (case split_on c xs of
              [] \<Rightarrow> [[x]]
            | y # ys \<Rightarrow> (x # y) # ys))"



text \<open>
  How an f-string renders a configuration value that may be missing: OmegaConf gives
  \<open>None\<close> for a missing key, which formats as the text \<open>None\<close>.
\<close>

definition fmt :: "string option \<Rightarrow> string" where
  "fmt v = (case v of None \<Rightarrow> ''None'' | Some s \<Rightarrow> s)"

text \<open>Errors propagate as exceptions do: the first one ends the computation.\<close>

definition bind_err :: "error + 'a \<Rightarrow> ('a \<Rightarrow> error + 'b) \<Rightarrow> error + 'b" where
  "bind_err m f = (case m of Inl e \<Rightarrow> Inl e | Inr x \<Rightarrow> f x)"

section \<open>posixpath\<close>

definition isabs :: "string \<Rightarrow> bool" where
  "isabs p = (case p of [] \<Rightarrow> False | c # _ \<Rightarrow> c = CHR ''/'')"

text \<open>\<open>os.path.join(a, b)\<close> on strings.\<close>

definition os_path_join :: "string \<Rightarrow> string \<Rightarrow> string" where
  "os_path_join a b =
     (if isabs b then b
      else if a = [] \<or> last a = CHR ''/'' then a @ b
      else a @ ''/'' @ b)"


text \<open>\<open>os.path.normpath\<close>: the loop over the components, then the function.\<close>

fun norm_comps :: "bool \<Rightarrow> string list \<Rightarrow> string list \<Rightarrow> string list" where
  "norm_comps rooted new_comps [] = new_comps"
| "norm_comps rooted new_comps (component # comps) =
     (if component = [] \<or> component = ''.'' then norm_comps rooted new_comps comps
      else if component \<noteq> ''..'' \<or> (\<not> rooted \<and> new_comps = []) \<or>
              (new_comps \<noteq> [] \<and> last new_comps = ''..'')
      then norm_comps rooted (new_comps @ [component]) comps
      else if new_comps \<noteq> [] then norm_comps rooted (butlast new_comps) comps
      else norm_comps rooted new_comps comps)"

definition normpath :: "string \<Rightarrow> string" where
  "normpath path =
     (if path = [] then ''.''
      else
        let initial_slashes =
              (if isabs path
               then (if take 2 path = ''//'' \<and> take 3 path \<noteq> ''///'' then 2 else 1)
               else (0::nat));
            comps = norm_comps (initial_slashes \<noteq> 0) [] (split_on (CHR ''/'') path);
            p = replicate initial_slashes (CHR ''/'') @ str_join ''/'' comps
        in if p = [] then ''.'' else p)"

section \<open>The file system\<close>

text \<open>
  The part of the file system the runner touches: the directories created, the content
  of each file, and the mode set by \<open>os.chmod\<close>. \<open>flush\<close> and \<open>fsync\<close> do not change
  this state.
\<close>

record fs =
  dirs :: "string set"
  files :: "string \<rightharpoonup> string"
  modes :: "string \<rightharpoonup> nat"

text \<open>The path itself and every prefix of it that ends before a separator.\<close>

definition dir_chain :: "string \<Rightarrow> string list" where
  "dir_chain p =
     map (\<lambda>n. take n p)
       (filter (\<lambda>n. n = length p \<or> p ! n = CHR ''/'') [1 ..< Suc (length p)])"

text \<open>\<open>os.makedirs(p, exist_ok=True)\<close>\<close>

definition makedirs :: "string \<Rightarrow> fs \<Rightarrow> fs" where
  "makedirs p s = s\<lparr>dirs := dirs s \<union> set (dir_chain p)\<rparr>"


definition fwrite :: "string \<Rightarrow> string \<Rightarrow> fs \<Rightarrow> fs" where
  "fwrite p t s =
     s\<lparr>files := (files s)(p \<mapsto> (case files s p of None \<Rightarrow> t | Some old \<Rightarrow> old @ t))\<rparr>"


definition write_all :: "string \<Rightarrow> string list \<Rightarrow> fs \<Rightarrow> fs" where
  "write_all p ts s = foldl (\<lambda>s' t. fwrite p t s') s ts"

definition path_exists :: "fs \<Rightarrow> string \<Rightarrow> bool" where
  "path_exists s p = (p \<in> dirs s \<or> files s p \<noteq> None)"

section \<open>The configuration tree\<close>

text \<open>
  The OmegaConf tree, with the keys the runner reads. A key that may be missing is an
  option.
\<close>

record logging_config =
  log_dir :: "string option"
  scripts_dir :: "string option"
  pids_dir :: "string option"
  tensorboard_dir :: "string option"
  wandb_save_dir :: "string option"

record system_config =
  save_dir :: "string option"
  logging :: logging_config

record cmds_config =
  before_start :: "string option"
  after_stop :: "string option"

record runner_config =
  hostfile :: "string option"
  no_shared_fs :: "bool option"

record task_config =
  type :: "string option"
  entrypoint :: string

record experiment_config =
  exp_dir :: string
  task :: task_config
  runner :: runner_config
  cmds :: "cmds_config option"
  envs :: "(string \<times> string) list option"

record compress_config =
  system :: system_config

record dict_config =
  "experiment" :: experiment_config
  compress :: compress_config

section \<open>flagscale/runner/backend/backend\_native\_compress.py: the scripts\<close>












section \<open>flagscale/cli.py: get\_action\<close>

text \<open>
  \<open>get_action(stop, dryrun, test, query, tune)\<close>. The result is the list of messages
  echoed to standard error (\<open>typer.echo(..., err=True)\<close>) together with either the
  exception raised or the action returned.
\<close>

definition get_action ::
  "bool \<Rightarrow> bool \<Rightarrow> bool \<Rightarrow> bool \<Rightarrow> bool \<Rightarrow> string list \<times> (error + string)" where
  "get_action stop dryrun test query tune =
     (let flags = [(''stop'', stop), (''dryrun'', dryrun), (''test'', test),
                   (''query'', query), (''auto_tune'', tune)];
          set_flags = map fst (filter snd flags)
      in if length set_flags > 1
         then ([''Error: Flags are mutually exclusive: --'' @ str_join '', --'' set_flags],
               Inl (Exit 1))
         else (case set_flags of
                 name # _ \<Rightarrow> ([], Inr name)
               | [] \<Rightarrow> ([], Inr ''run'')))"

text \<open>The names of the flags that are set, in the order of the source's table.\<close>

definition flag_names :: "bool \<Rightarrow> bool \<Rightarrow> bool \<Rightarrow> bool \<Rightarrow> bool \<Rightarrow> string list" where
  "flag_names stop dryrun test query tune =
     (if stop then [''stop''] else []) @ (if dryrun then [''dryrun''] else []) @
     (if test then [''test''] else []) @ (if query then [''query''] else []) @
     (if tune then [''auto_tune''] else [])"

section \<open>flagscale/runner/utils.py\<close>

text \<open>
  Modelled from the spec: \<open>resolve_path\<close> of flagscale/runner/utils.py is not among the
  sources; only its tests and callers are. Absolute inputs pass through unchanged;
  relative inputs are joined against the base, the current working directory \<open>cwd\<close>.
  The join is normalised, as the tests of \<open>TestResolvePath\<close> require for
  \<open>./models/checkpoint\<close> and \<open>../sibling\<close>. This is the path computed; the checks
  for a missing path are in \<open>resolve_path_checked\<close>.
\<close>

definition resolve_path :: "string \<Rightarrow> string \<Rightarrow> string" where
  "resolve_path cwd path = (if isabs path then path else normpath (os_path_join cwd path))"

text \<open>
  Modelled from the spec: \<open>resolve_path\<close> with its options, which is not among the
  sources. When the resolved path does not exist, \<open>raise_missing\<close> fails with an error
  that includes the configuration key and takes precedence over \<open>check_exists\<close>, which
  only logs a warning. The result is the list of warnings logged together with the
  error or the path.
\<close>

definition missing_message :: "string \<Rightarrow> string \<Rightarrow> string" where
  "missing_message config_key resolved =
     ''Config '' @ [sq] @ config_key @ [sq] @ '': path does not exist: '' @ resolved"

definition resolve_path_checked ::
  "string \<Rightarrow> fs \<Rightarrow> string \<Rightarrow> string \<Rightarrow> bool \<Rightarrow> bool \<Rightarrow> string list \<times> (error + string)" where
  "resolve_path_checked cwd s path config_key check_exists raise_missing =
     (let resolved = resolve_path cwd path
      in if path_exists s resolved then ([], Inr resolved)
         else if raise_missing
         then ([], Inl (FileNotFoundError (missing_message config_key resolved)))
         else if check_exists then ([missing_message config_key resolved], Inr resolved)
         else ([], Inr resolved))"

text \<open>
  Modelled from the spec: \<open>setup_exp_dir\<close> of flagscale/runner/utils.py is not among the
  sources. It resolves the configured experiment root, creates it with all missing
  parents, and returns the absolute path.
\<close>

definition setup_exp_dir :: "string \<Rightarrow> dict_config \<Rightarrow> fs \<Rightarrow> string \<times> fs" where
  "setup_exp_dir cwd config s =
     (let root = resolve_path cwd (exp_dir (experiment config))
      in (root, makedirs root s))"

text \<open>
  Modelled from the spec: \<open>setup_logging_dirs\<close> of flagscale/runner/utils.py is not
  among the sources; only its tests and its caller are. If the logging configuration
  already specifies a log directory, that value, resolved, is used; otherwise the log
  directory is the sub-directory \<open>log_subdir\<close> of the experiment directory. The log
  directory, \<open>scripts_dir\<close> and \<open>pids_dir\<close> are written back into the logging
  configuration, and no directory is created. The result is the log directory and the
  logging configuration after the call.
\<close>

definition setup_logging_dirs ::
  "string \<Rightarrow> logging_config \<Rightarrow> string \<Rightarrow> string \<Rightarrow> string \<times> logging_config" where
  "setup_logging_dirs cwd logging_config exp_root log_subdir =
     (let d = (case log_dir logging_config of
                 Some explicit \<Rightarrow> resolve_path cwd explicit
               | None \<Rightarrow> os_path_join exp_root log_subdir)
      in (d, logging_config\<lparr>log_dir := Some d,
                             scripts_dir := Some (os_path_join d ''scripts''),
                             pids_dir := Some (os_path_join d ''pids'')\<rparr>))"

text \<open>The call without \<open>log_subdir\<close>, whose default is \<open>logs\<close>.\<close>

definition setup_logging_dirs_default ::
  "string \<Rightarrow> logging_config \<Rightarrow> string \<Rightarrow> string \<times> logging_config" where
  "setup_logging_dirs_default cwd logging_config exp_root =
     setup_logging_dirs cwd logging_config exp_root ''logs''"

text \<open>
  A host entry of the pool. What the spec leaves open about the hostfile is a parameter:
  the comment marker, how the fields of a line give the host and its slot count, and the
  name of the local machine.
\<close>

record host_entry =
  hostname :: string
  slotCount :: nat
  nodeRank :: nat

record hostfile_syntax =
  comment_marker :: string
  line_fields :: "string \<Rightarrow> string \<times> nat"
  local_host :: string

definition is_blank :: "string \<Rightarrow> bool" where
  "is_blank l = (filter (\<lambda>c. c \<notin> set ('' '' @ [CHR 0x09, CHR 0x0A, CHR 0x0B, CHR 0x0C, CHR 0x0D])) l = [])"

definition is_comment :: "string \<Rightarrow> string \<Rightarrow> bool" where
  "is_comment marker l = (marker \<noteq> [] \<and> take (length marker) l = marker)"

definition host_lines :: "hostfile_syntax \<Rightarrow> string \<Rightarrow> string list" where
  "host_lines syn content =
     filter (\<lambda>l. \<not> is_blank l \<and> \<not> is_comment (comment_marker syn) l) (split_on nl content)"

text \<open>
  Modelled from the spec: \<open>parse_hostfile\<close> of flagscale/runner/utils.py is not among
  the sources. An absent path gives a single entry for the local machine with one slot
  and rank 0; a path that does not exist fails; otherwise the file is read line by line,
  blank lines and comment lines are skipped, and each remaining line gives one entry
  whose rank is its position among the remaining lines.
\<close>

definition parse_hostfile ::
  "hostfile_syntax \<Rightarrow> fs \<Rightarrow> string option \<Rightarrow> error + host_entry list" where
  "parse_hostfile syn s hostfile_path =
     (case hostfile_path of
        None \<Rightarrow> Inr [\<lparr>hostname = local_host syn, slotCount = 1, nodeRank = 0\<rparr>]
      | Some p \<Rightarrow>
          (case files s p of
             None \<Rightarrow> Inl (HostfileNotFound p)
           | Some content \<Rightarrow>
               Inr (map (\<lambda>(i, l). \<lparr>hostname = fst (line_fields syn l),
                                    slotCount = snd (line_fields syn l),
                                    nodeRank = i\<rparr>)
                      (enumerate 0 (host_lines syn content)))))"

section \<open>flagscale/runner/backend/backend\_native\_compress.py: the backend\<close>

text \<open>
  What the constructor reads from outside the configuration: the working directory, the
  Hydra runtime (\<open>HydraConfig.get()\<close>), the clock, and the hostfile syntax.
\<close>

record environment =
  cwd :: string
  hydra_output_dir :: string
  hydra_output_subdir :: string
  now :: string
  hostfile_format :: hostfile_syntax

record backend =
  task_type :: "string option"
  user_args :: "string list"
  rdzv_id :: string
  user_envs :: "(string \<times> string) list"
  user_script :: string
  resources :: "host_entry list"

text \<open>\<open>_get_args_llmcompressor\<close>, lines 18 to 32.\<close>

definition get_args_llmcompressor :: "environment \<Rightarrow> fs \<Rightarrow> error + string list" where
  "get_args_llmcompressor env s =
     (let config_path = os_path_join (hydra_output_dir env)
                          (hydra_output_subdir env @ ''/config.yaml'')
      in bind_err (snd (resolve_path_checked (cwd env) s config_path ''hydra.config_path''
                          False True))
           (\<lambda>config_path. Inr [''--config-path='' @ config_path]))"

text \<open>
  Lines 42 to 51: a directory of the logging configuration that is set and not empty is
  resolved; otherwise it is the given sub-directory of the experiment directory.
\<close>

definition dir_or_default :: "string \<Rightarrow> string option \<Rightarrow> string \<Rightarrow> string \<Rightarrow> string" where
  "dir_or_default wd configured exp_root name =
     (case configured of
        None \<Rightarrow> os_path_join exp_root name
      | Some d \<Rightarrow> (if d \<noteq> [] then resolve_path wd d else os_path_join exp_root name))"

text \<open>
  \<open>_update_config_compress\<close>, lines 35 to 53: the configuration is patched in place, so
  the result is the configuration and the file system after the call.
\<close>

definition update_config_compress ::
  "string \<Rightarrow> dict_config \<Rightarrow> fs \<Rightarrow> dict_config \<times> fs" where
  "update_config_compress wd config s =
     (let (exp_root, s1) = setup_exp_dir wd config s;
          system_config = system (compress config);
          lg1 = snd (setup_logging_dirs wd (logging system_config) exp_root ''compress_logs'');
          lg2 = lg1\<lparr>tensorboard_dir :=
                      Some (dir_or_default wd (tensorboard_dir lg1) exp_root ''tensorboard'')\<rparr>;
          lg3 = lg2\<lparr>wandb_save_dir :=
                      Some (dir_or_default wd (wandb_save_dir lg2) exp_root ''wandb'')\<rparr>
      in (config\<lparr>compress := (compress config)\<lparr>system := system_config\<lparr>logging := lg3\<rparr>\<rparr>\<rparr>,
          s1))"

text \<open>
  \<open>_prepare\<close>, lines 63 to 72. An exception leaves the configuration as patched so far.
\<close>

definition prepare ::
  "environment \<Rightarrow> string option \<Rightarrow> dict_config \<Rightarrow> fs \<Rightarrow> (error + backend) \<times> dict_config \<times> fs" where
  "prepare env tt config s =
     (let (config1, s1) = update_config_compress (cwd env) config s
      in (bind_err (get_args_llmcompressor env s1) (\<lambda>args.
          bind_err (parse_hostfile (hostfile_format env) s1
                      (hostfile (runner (experiment config1)))) (\<lambda>pool.
            Inr \<lparr>task_type = tt,
                 user_args = args,
                 rdzv_id = now env,
                 user_envs = (case envs (experiment config1) of None \<Rightarrow> [] | Some e \<Rightarrow> e),
                 user_script = entrypoint (task (experiment config1)),
                 resources = pool\<rparr>)),
          config1, s1))"

text \<open>
  \<open>NativeCompressBackend.__init__\<close>, lines 57 to 61. \<open>BackendBase.__init__\<close> is not
  among the sources; the constructor reads \<open>self.config\<close> right after it, so it is taken
  to store the configuration on the object and to do nothing else. The result is the
  exception or the object, with the configuration and the file system after the call.
\<close>

definition NativeCompressBackend_init ::
  "environment \<Rightarrow> dict_config \<Rightarrow> fs \<Rightarrow> (error + backend) \<times> dict_config \<times> fs" where
  "NativeCompressBackend_init env config s =
     (let tt = type (task (experiment config))
      in if tt = Some ''compress'' then prepare env tt config s
         else (Inl (AssertionError (''Unsupported task type: '' @ fmt tt)), config, s))"

section \<open>Concrete inputs\<close>

definition example_logging :: logging_config where
  "example_logging =
     \<lparr>log_dir = Some ''/tmp/exp1/logs'',
      scripts_dir = Some ''/tmp/exp1/logs/scripts'',
      pids_dir = Some ''/tmp/exp1/logs/pids'',
      tensorboard_dir = Some ''/tmp/exp1/tensorboard'',
      wandb_save_dir = Some ''/tmp/exp1/wandb''\<rparr>"

definition example_config ::
  "string option \<Rightarrow> bool option \<Rightarrow> cmds_config option \<Rightarrow> dict_config" where
  "example_config tt nsf hooks =
     \<lparr>experiment =
        \<lparr>exp_dir = ''/tmp/exp1'',
         task = \<lparr>type = tt, entrypoint = ''compress.py''\<rparr>,
         runner = \<lparr>hostfile = None, no_shared_fs = nsf\<rparr>,
         cmds = hooks,
         envs = Some [(''NCCL_DEBUG'', ''INFO'')]\<rparr>,
      compress = \<lparr>system = \<lparr>save_dir = Some ''/tmp/exp1/ckpt'', logging = example_logging\<rparr>\<rparr>\<rparr>"

definition empty_fs :: fs where
  "empty_fs = \<lparr>dirs = {}, files = Map.empty, modes = Map.empty\<rparr>"

definition example_syntax :: hostfile_syntax where
  "example_syntax =
     \<lparr>comment_marker = ''#'',
      line_fields = (\<lambda>l. (takeWhile (\<lambda>c. c \<noteq> CHR '' '') l, 1)),
      local_host = ''localhost''\<rparr>"


definition example_env :: environment where
  "example_env =
     \<lparr>cwd = ''/work'',
      hydra_output_dir = ''/tmp/exp1/hydra'',
      hydra_output_subdir = ''.hydra'',
      now = ''20240101_000000.000000'',
      hostfile_format = example_syntax\<rparr>"

definition unset_logging :: logging_config where
  "unset_logging = \<lparr>log_dir = None, scripts_dir = None, pids_dir = None,
                     tensorboard_dir = None, wandb_save_dir = None\<rparr>"


section \<open>Properties\<close>

subsection \<open>Writing a file\<close>


lemma modes_write_all: "modes (write_all p ts s) = modes s"
  unfolding write_all_def
  by (induction ts arbitrary: s) (simp_all add: fwrite_def)



subsection \<open>The generators return once the directories are set\<close>






subsection \<open>The stop script\<close>



subsection \<open>The run script\<close>









subsection \<open>Environment variables in the run script\<close>







subsection \<open>Paths\<close>

lemma isabs_Cons: "isabs (c # p) = (c = CHR ''/'')"
  by (simp add: isabs_def)

lemma isabs_os_path_join: "isabs a \<Longrightarrow> isabs (os_path_join a b)"
  by (cases a) (auto simp: os_path_join_def isabs_def)

lemma isabs_normpath: "isabs p \<Longrightarrow> isabs (normpath p)"
  by (cases p) (auto simp: normpath_def isabs_def Let_def numeral_2_eq_2)

lemma isabs_resolve_path: "isabs wd \<Longrightarrow> isabs (resolve_path wd p)"
  by (simp add: resolve_path_def isabs_os_path_join isabs_normpath)

text \<open>
  C6: with the current working directory as base, which is an absolute path,
  \<open>resolve_path\<close> is idempotent: the result is always absolute, an absolute input
  passes through unchanged, and a relative input is joined against the base.
\<close>

theorem resolve_path_idempotent:
  assumes "isabs wd"
  shows "resolve_path wd (resolve_path wd p) = resolve_path wd p \<and>
         isabs (resolve_path wd p) \<and>
         (isabs p \<longrightarrow> resolve_path wd p = p) \<and>
         (\<not> isabs p \<longrightarrow> resolve_path wd p = normpath (os_path_join wd p))"
  using isabs_resolve_path [OF assms, of p] by (simp add: resolve_path_def)

theorem resolve_path_idempotent_witness:
  "resolve_path ''/work'' (resolve_path ''/work'' ''./models/checkpoint'') =
     ''/work/models/checkpoint'' \<and>
   resolve_path ''/work'' ''./models/checkpoint'' = ''/work/models/checkpoint'' \<and>
   resolve_path ''/work'' (resolve_path ''/work'' ''/tmp/some/path'') = ''/tmp/some/path''"
proof -
  have wd: "isabs ''/work''" by (simp add: isabs_def)
  have r: "resolve_path ''/work'' ''./models/checkpoint'' = ''/work/models/checkpoint''"
    by (simp add: resolve_path_def isabs_def os_path_join_def normpath_def Let_def)
  have a: "resolve_path ''/work'' ''/tmp/some/path'' = ''/tmp/some/path''"
    by (simp add: resolve_path_def isabs_def)
  from resolve_path_idempotent [OF wd, of "''./models/checkpoint''"]
  have "resolve_path ''/work'' (resolve_path ''/work'' ''./models/checkpoint'') =
          resolve_path ''/work'' ''./models/checkpoint''"
    by (rule conjunct1)
  moreover from resolve_path_idempotent [OF wd, of "''/tmp/some/path''"]
  have "resolve_path ''/work'' (resolve_path ''/work'' ''/tmp/some/path'') =
          resolve_path ''/work'' ''/tmp/some/path''"
    by (rule conjunct1)
  ultimately show ?thesis unfolding r a by simp
qed

text \<open>The cases of \<open>TestResolvePath\<close>, with \<open>/work\<close> as working directory.\<close>

lemma resolve_path_tests:
  "resolve_path ''/work'' ''/tmp/some/path'' = ''/tmp/some/path''"
  "resolve_path ''/work'' ''data/train'' = ''/work/data/train''"
  "resolve_path ''/work'' ''./models/checkpoint'' = ''/work/models/checkpoint''"
  "resolve_path ''/work/sub'' ''../sibling'' = ''/work/sibling''"
  by (simp_all add: resolve_path_def isabs_def os_path_join_def normpath_def Let_def)

subsection \<open>Logging directories\<close>

text \<open>
  C7: with no log directory in the logging configuration, \<open>setup_logging_dirs\<close> returns
  the sub-directory \<open>log_subdir\<close> of the experiment directory, and \<open>logs\<close> is the
  default sub-directory; a configured log directory is used after resolution; in every
  case the log directory, \<open>scripts_dir = <log_dir>/scripts\<close> and
  \<open>pids_dir = <log_dir>/pids\<close> are written back into the logging configuration, and
  they are absolute when the working directory and the experiment directory are.
\<close>

theorem setup_logging_dirs_layout:
  assumes "setup_logging_dirs wd logging_config exp_root log_subdir = (d, logging_config')"
  shows "(log_dir logging_config = None \<longrightarrow> d = os_path_join exp_root log_subdir) \<and>
         (\<forall>explicit. log_dir logging_config = Some explicit \<longrightarrow> d = resolve_path wd explicit) \<and>
         log_dir logging_config' = Some d \<and>
         scripts_dir logging_config' = Some (os_path_join d ''scripts'') \<and>
         pids_dir logging_config' = Some (os_path_join d ''pids'') \<and>
         (isabs wd \<and> isabs exp_root \<longrightarrow>
            isabs d \<and> isabs (os_path_join d ''scripts'') \<and> isabs (os_path_join d ''pids'')) \<and>
         setup_logging_dirs_default wd logging_config exp_root =
           setup_logging_dirs wd logging_config exp_root ''logs''"
  using assms
  by (auto simp: setup_logging_dirs_def setup_logging_dirs_default_def Let_def
        isabs_os_path_join isabs_resolve_path split: option.splits)

theorem setup_logging_dirs_layout_witness:
  "setup_logging_dirs_default ''/work'' unset_logging ''/tmp/exp1'' =
     (''/tmp/exp1/logs'',
      unset_logging\<lparr>log_dir := Some ''/tmp/exp1/logs'',
                     scripts_dir := Some ''/tmp/exp1/logs/scripts'',
                     pids_dir := Some ''/tmp/exp1/logs/pids''\<rparr>) \<and>
   isabs ''/tmp/exp1/logs/scripts'' \<and> isabs ''/tmp/exp1/logs/pids''"
proof -
  have run: "setup_logging_dirs ''/work'' unset_logging ''/tmp/exp1'' ''logs'' =
     (''/tmp/exp1/logs'',
      unset_logging\<lparr>log_dir := Some ''/tmp/exp1/logs'',
                     scripts_dir := Some ''/tmp/exp1/logs/scripts'',
                     pids_dir := Some ''/tmp/exp1/logs/pids''\<rparr>)"
    by (simp add: setup_logging_dirs_def unset_logging_def os_path_join_def isabs_def Let_def)
  have j: "os_path_join ''/tmp/exp1/logs'' ''scripts'' = ''/tmp/exp1/logs/scripts''"
          "os_path_join ''/tmp/exp1/logs'' ''pids'' = ''/tmp/exp1/logs/pids''"
    by (simp_all add: os_path_join_def isabs_def)
  have a: "isabs ''/work'' \<and> isabs ''/tmp/exp1''" by (simp add: isabs_def)
  from setup_logging_dirs_layout [OF run] a show ?thesis
    unfolding j run by simp
qed

subsection \<open>The host pool\<close>





subsection \<open>The constructor\<close>

text \<open>
  C10: when \<open>experiment.task.type\<close> is anything other than \<open>compress\<close>, a missing
  type included, the constructor raises an \<open>AssertionError\<close> whose message names the
  task type (\<open>None\<close> for a missing one), and the configuration and the file system
  are as they were before the call.
\<close>

theorem init_rejects_other_task_types:
  assumes "type (task (experiment config)) \<noteq> Some ''compress''"
  shows "NativeCompressBackend_init env config s =
           (Inl (AssertionError
                   (''Unsupported task type: '' @
                    (case type (task (experiment config)) of
                       None \<Rightarrow> ''None''
                     | Some t \<Rightarrow> t))),
            config, s)"
  using assms by (simp add: NativeCompressBackend_init_def fmt_def Let_def)

theorem init_rejects_other_task_types_witness:
  "NativeCompressBackend_init example_env (example_config (Some ''train'') None None) empty_fs =
     (Inl (AssertionError ''Unsupported task type: train''),
      example_config (Some ''train'') None None, empty_fs) \<and>
   NativeCompressBackend_init example_env (example_config None None None) empty_fs =
     (Inl (AssertionError ''Unsupported task type: None''),
      example_config None None None, empty_fs)"
proof -
  have t: "type (task (experiment (example_config tt None None))) = tt" for tt
    by (simp add: example_config_def)
  have a: "type (task (experiment (example_config (Some ''train'') None None))) \<noteq> Some ''compress''"
    unfolding t by simp
  have b: "type (task (experiment (example_config None None None))) \<noteq> Some ''compress''"
    unfolding t by simp
  from init_rejects_other_task_types [OF a, of example_env empty_fs]
       init_rejects_other_task_types [OF b, of example_env empty_fs]
  show ?thesis unfolding t by simp
qed

text \<open>
  For the task type \<open>compress\<close> the constructor does patch the configuration and
  create the experiment directory, here before failing on the missing Hydra file.
\<close>

lemma init_compress_prepares:
  "dirs (snd (snd (NativeCompressBackend_init example_env
               ((example_config (Some ''compress'') None None)
                  \<lparr>compress := \<lparr>system = \<lparr>save_dir = Some ''/tmp/exp1/ckpt'',
                                          logging = unset_logging\<rparr>\<rparr>\<rparr>) empty_fs))) =
     {''/tmp'', ''/tmp/exp1''} \<and>
   logging (system (compress (fst (snd (NativeCompressBackend_init example_env
               ((example_config (Some ''compress'') None None)
                  \<lparr>compress := \<lparr>system = \<lparr>save_dir = Some ''/tmp/exp1/ckpt'',
                                          logging = unset_logging\<rparr>\<rparr>\<rparr>) empty_fs))))) =
     \<lparr>log_dir = Some ''/tmp/exp1/compress_logs'',
      scripts_dir = Some ''/tmp/exp1/compress_logs/scripts'',
      pids_dir = Some ''/tmp/exp1/compress_logs/pids'',
      tensorboard_dir = Some ''/tmp/exp1/tensorboard'',
      wandb_save_dir = Some ''/tmp/exp1/wandb''\<rparr>"
  by code_simp

subsection \<open>get\_action\<close>

lemma set_flags_flag_names:
  "map fst (filter snd [(''stop'', stop), (''dryrun'', dryrun), (''test'', test),
                        (''query'', query), (''auto_tune'', tune)])
   = flag_names stop dryrun test query tune"
  by (simp add: flag_names_def)

lemma get_action_flag_names:
  "get_action stop dryrun test query tune =
     (if length (flag_names stop dryrun test query tune) > 1
      then ([''Error: Flags are mutually exclusive: --'' @
             str_join '', --'' (flag_names stop dryrun test query tune)], Inl (Exit 1))
      else (case flag_names stop dryrun test query tune of
              name # _ \<Rightarrow> ([], Inr name)
            | [] \<Rightarrow> ([], Inr ''run'')))"
  unfolding get_action_def Let_def set_flags_flag_names by (rule refl)

text \<open>
  C3, as the code has it: with no flag set the action is \<open>run\<close>; with exactly one flag
  set it is that flag's name; with two or more set, a message naming every set flag is
  echoed to standard error and \<open>typer.Exit(1)\<close> is raised, an exception that carries the
  exit code only.
\<close>

theorem get_action_by_flag_count:
  "get_action stop dryrun test query tune =
     (case flag_names stop dryrun test query tune of
        [] \<Rightarrow> ([], Inr ''run'')
      | [name] \<Rightarrow> ([], Inr name)
      | names \<Rightarrow> ([''Error: Flags are mutually exclusive: --'' @ str_join '', --'' names],
                  Inl (Exit 1)))"
  unfolding get_action_flag_names
  by (cases "flag_names stop dryrun test query tune";
      cases "tl (flag_names stop dryrun test query tune)") auto

text \<open>
  C3 as stated fails: the exception raised for the flags stop and dryrun is the same
  value as the one raised for test and query, so it does not name the flags that were set.
\<close>

theorem get_action_error_has_no_payload:
  "snd (get_action True True False False False) = Inl (Exit 1) \<and>
   snd (get_action False False True True False) = Inl (Exit 1)"
  by (simp add: get_action_def)

text \<open>
  C8, as the code has it: when two or more flags are set, get\_action itself echoes one
  message to standard error and raises \<open>typer.Exit(1)\<close>; when at most one flag is set
  it echoes nothing and returns an action.
\<close>

theorem get_action_prints_and_exits:
  "(2 \<le> length (flag_names stop dryrun test query tune) \<longrightarrow>
      get_action stop dryrun test query tune =
        ([''Error: Flags are mutually exclusive: --'' @
          str_join '', --'' (flag_names stop dryrun test query tune)], Inl (Exit 1))) \<and>
   (length (flag_names stop dryrun test query tune) < 2 \<longrightarrow>
      fst (get_action stop dryrun test query tune) = [] \<and>
      (\<exists>name. snd (get_action stop dryrun test query tune) = Inr name))"
  unfolding get_action_flag_names
  by (cases "flag_names stop dryrun test query tune") auto

theorem get_action_prints_and_exits_witness:
  "2 \<le> length (flag_names True True False False False) \<and>
   get_action True True False False False =
     ([''Error: Flags are mutually exclusive: --stop, --dryrun''], Inl (Exit 1)) \<and>
   length (flag_names False False True False False) < 2 \<and>
   fst (get_action False False True False False) = [] \<and>
   snd (get_action False False True False False) = Inr ''test''"
  using get_action_prints_and_exits [of True True False False False]
        get_action_prints_and_exits [of False False True False False]
  by (simp add: flag_names_def get_action_def)

text \<open>
  C8 as stated fails: on conflicting flags get\_action prints a message itself and exits.
\<close>

theorem get_action_prints_directly:
  "fst (get_action True True True True True) =
     [''Error: Flags are mutually exclusive: --stop, --dryrun, --test, --query, --auto_tune''] \<and>
   snd (get_action True True True True True) = Inl (Exit 1)"
  by (simp add: get_action_def)

end
